theory Spec2Isabelle
  imports Complex_Main "HOL-Library.AList"
begin

section \<open>Values shared by the analyzer and its libraries\<close>

text \<open>
  The analyzer of \<^verbatim>\<open>scripts/event_change_analysis.py\<close> works on a pandas frame
  indexed by \<^verbatim>\<open>Date\<close> with one \<^verbatim>\<open>Price\<close> column. A timestamp is a number
  of days, so \<^verbatim>\<open>timedelta(days=h)\<close> is the integer \<open>h\<close>; a price read from the frame is
  a finite number. The frame is the list of its rows, in row order.
\<close>

type_synonym date = int

type_synonym frame = "(date \<times> real) list"

text \<open>
  A float64 that the code computes: a finite value, an infinity or NaN. Finite values are
  exact reals (no rounding, no overflow, one zero); the special values follow IEEE 754,
  which is what numpy does where Python itself would raise \<^verbatim>\<open>ZeroDivisionError\<close>.
\<close>

datatype fl = Fin real | PInf | NInf | NaN

fun fneg :: "fl \<Rightarrow> fl" where
  "fneg (Fin a) = Fin (- a)"
| "fneg PInf = NInf"
| "fneg NInf = PInf"
| "fneg NaN = NaN"

fun fadd :: "fl \<Rightarrow> fl \<Rightarrow> fl" where
  "fadd (Fin a) (Fin b) = Fin (a + b)"
| "fadd (Fin a) PInf = PInf"
| "fadd (Fin a) NInf = NInf"
| "fadd PInf (Fin b) = PInf"
| "fadd PInf PInf = PInf"
| "fadd PInf NInf = NaN"
| "fadd NInf (Fin b) = NInf"
| "fadd NInf PInf = NaN"
| "fadd NInf NInf = NInf"
| "fadd NaN y = NaN"
| "fadd x NaN = NaN"

definition fsub :: "fl \<Rightarrow> fl \<Rightarrow> fl" where
  "fsub x y = fadd x (fneg y)"

definition signed_inf :: "bool \<Rightarrow> fl" where
  "signed_inf positive = (if positive then PInf else NInf)"

fun fmul :: "fl \<Rightarrow> fl \<Rightarrow> fl" where
  "fmul (Fin a) (Fin b) = Fin (a * b)"
| "fmul (Fin a) PInf = (if a = 0 then NaN else signed_inf (0 < a))"
| "fmul (Fin a) NInf = (if a = 0 then NaN else signed_inf (a < 0))"
| "fmul PInf (Fin b) = (if b = 0 then NaN else signed_inf (0 < b))"
| "fmul NInf (Fin b) = (if b = 0 then NaN else signed_inf (b < 0))"
| "fmul PInf PInf = PInf"
| "fmul PInf NInf = NInf"
| "fmul NInf PInf = NInf"
| "fmul NInf NInf = PInf"
| "fmul NaN y = NaN"
| "fmul x NaN = NaN"

fun fdiv :: "fl \<Rightarrow> fl \<Rightarrow> fl" where
  "fdiv (Fin a) (Fin b) =
     (if b = 0 then (if a = 0 then NaN else signed_inf (0 < a)) else Fin (a / b))"
| "fdiv (Fin a) PInf = Fin 0"
| "fdiv (Fin a) NInf = Fin 0"
| "fdiv PInf (Fin b) = signed_inf (0 \<le> b)"
| "fdiv NInf (Fin b) = signed_inf (b < 0)"
| "fdiv PInf PInf = NaN"
| "fdiv PInf NInf = NaN"
| "fdiv NInf PInf = NaN"
| "fdiv NInf NInf = NaN"
| "fdiv NaN y = NaN"
| "fdiv x NaN = NaN"

text \<open>
  The exceptions that can travel through the analyzer. \<^verbatim>\<open>except Exception\<close> catches
  every class but the ones that derive from \<^verbatim>\<open>BaseException\<close> alone.
\<close>

datatype py_exn =
    KeyError | IndexError | ValueError | TypeError | OverflowError
  | BadSegmentationParameters | SamplingError | FloatingPointError
  | KeyboardInterrupt | SystemExit

fun is_Exception :: "py_exn \<Rightarrow> bool" where
  "is_Exception KeyboardInterrupt = False"
| "is_Exception SystemExit = False"
| "is_Exception e = True"

text \<open>List comprehension over a body that may raise: the first exception ends it.\<close>

fun comprehend :: "('a \<Rightarrow> py_exn + 'b) \<Rightarrow> 'a list \<Rightarrow> py_exn + 'b list" where
  "comprehend f [] = Inr []"
| "comprehend f (x # xs) =
     (case f x of
        Inl e \<Rightarrow> Inl e
      | Inr y \<Rightarrow> (case comprehend f xs of Inl e \<Rightarrow> Inl e | Inr ys \<Rightarrow> Inr (y # ys)))"

text \<open>
  Positional access \<^verbatim>\<open>.iloc[i]\<close> and \<^verbatim>\<open>index[i]\<close>: a negative position counts from
  the end, a position outside the rows raises \<^verbatim>\<open>IndexError\<close>.
\<close>

definition iloc :: "'a list \<Rightarrow> int \<Rightarrow> py_exn + 'a" where
  "iloc rows i =
     (if 0 \<le> i \<and> i < int (length rows) then Inr (rows ! nat i)
      else if i < 0 \<and> - int (length rows) \<le> i then Inr (rows ! nat (int (length rows) + i))
      else Inl IndexError)"

subsection \<open>Series arithmetic of pandas\<close>

text \<open>\<^verbatim>\<open>Series.mean()\<close>: NaN on an empty column.\<close>

definition series_mean :: "real list \<Rightarrow> fl" where
  "series_mean xs = (if xs = [] then NaN else Fin (sum_list xs / real (length xs)))"

text \<open>
  \<^verbatim>\<open>cumsum\<close> and \<^verbatim>\<open>cumprod\<close> skip missing values: NaN entries are replaced by the
  neutral element, the running fold is taken, and the NaN entries are put back.
\<close>

fun running :: "(fl \<Rightarrow> fl \<Rightarrow> fl) \<Rightarrow> fl \<Rightarrow> fl list \<Rightarrow> fl list" where
  "running f acc [] = []"
| "running f acc (x # xs) = f acc x # running f (f acc x) xs"

definition accumulate :: "(fl \<Rightarrow> fl \<Rightarrow> fl) \<Rightarrow> fl list \<Rightarrow> fl list" where
  "accumulate f xs = (case xs of [] \<Rightarrow> [] | x # rest \<Rightarrow> x # running f x rest)"

definition na_accum :: "(fl \<Rightarrow> fl \<Rightarrow> fl) \<Rightarrow> fl \<Rightarrow> fl list \<Rightarrow> fl list" where
  "na_accum f neutral xs =
     map2 (\<lambda>x r. if x = NaN then NaN else r) xs
       (accumulate f (map (\<lambda>x. if x = NaN then neutral else x) xs))"

definition cumsum :: "fl list \<Rightarrow> fl list" where
  "cumsum xs = na_accum fadd (Fin 0) xs"

definition cumprod :: "fl list \<Rightarrow> fl list" where
  "cumprod xs = na_accum fmul (Fin 1) xs"

text \<open>\<^verbatim>\<open>pct_change()\<close> is \<^verbatim>\<open>data / data.shift(1) - 1\<close>: the first entry has no predecessor.\<close>

definition pct_change :: "real list \<Rightarrow> fl list" where
  "pct_change xs =
     (case xs of
        [] \<Rightarrow> []
      | x # rest \<Rightarrow> NaN # map2 (\<lambda>prev cur. fsub (fdiv (Fin cur) (Fin prev)) (Fin 1)) xs rest)"

text \<open>
  \<^verbatim>\<open>series.pct_change().add(1).cumprod().iloc[-1] - 1\<close>, the cumulative return of a
  price column; \<^verbatim>\<open>iloc[-1]\<close> raises on an empty column.
\<close>

definition cumulative_return :: "real list \<Rightarrow> py_exn + fl" where
  "cumulative_return xs =
     (case iloc (cumprod (map (\<lambda>v. fadd v (Fin 1)) (pct_change xs))) (- 1) of
        Inl e \<Rightarrow> Inl e
      | Inr v \<Rightarrow> Inr (fsub v (Fin 1)))"

section \<open>The analyzer and what it calls\<close>

text \<open>
  What the analyzer leaves behind besides its return value: records handed to the logger,
  and figures and lines shown to the user (a figure counts when \<^verbatim>\<open>plt.show()\<close> is
  reached). The plotting and logging calls themselves are taken not to raise.
\<close>

datatype level = INFO | WARNING | ERROR

datatype log_record =
    CusumPlotGenerated
  | ErrorCalculatingCusum py_exn
  | ErrorDetectingChangePoints py_exn
  | BayesianDetectedAt date
  | BayesianFailed py_exn
  | SkippingEvent string string
  | CouldNotProcessEvent string py_exn

record event_row =
  Event :: string
  Date :: string
  Change_1M :: "fl option"
  Change_3M :: "fl option"
  Change_6M :: "fl option"
  Cumulative_Return_Before :: fl
  Cumulative_Return_After :: fl

type_synonym ttest_frame = "(string \<times> fl \<times> fl) list"

datatype artefact =
    CusumPlot "date list" "fl list"
  | PrintChangeYears "int list"
  | ChangePointPlot frame "(date \<times> real \<times> int) list"
  | TracePlot "int list"
  | PrintChangePointDate date
  | PriceTrendsPlot "(string \<times> date \<times> frame) list"
  | ChangeBarPlots "event_row list"
  | PrintFrame ttest_frame

text \<open>
  What a public method can hand back to its caller: Python's \<^verbatim>\<open>None\<close>, a sequence of
  floats, a list of boundary positions, a timestamp, or the pair of result tables.
\<close>

datatype pyval =
    PyNone
  | PySeries "fl list"
  | PyBoundaries "int list"
  | PyDate date
  | PyTables "event_row list" ttest_frame

text \<open>
  The single change-point model that \<^verbatim>\<open>bayesian_change_point_detection\<close> builds
  inside \<^verbatim>\<open>with pm.Model()\<close>: the support of the change point, the priors, and the
  per-observation parameters of the likelihood,
  \<^verbatim>\<open>pm.math.switch(cp >= np.arange(len(data)), mu1, mu2)\<close>.
\<close>

definition arange :: "nat \<Rightarrow> int list" where
  "arange n = map int [0..<n]"

definition switch :: "bool list \<Rightarrow> 'a \<Rightarrow> 'a \<Rightarrow> 'a list" where
  "switch cond a b = map (\<lambda>c. if c then a else b) cond"

record change_point_model =
  cp_lower :: int
  cp_upper :: int
  mu_prior :: "fl \<times> real"
  sigma_prior :: real
  obs_mu :: "int \<Rightarrow> real \<Rightarrow> real \<Rightarrow> real list"
  obs_sigma :: "int \<Rightarrow> real \<Rightarrow> real \<Rightarrow> real list"
  observed :: "real list"

definition build_model :: "real list \<Rightarrow> change_point_model" where
  "build_model data =
     \<lparr> cp_lower = 0,
       cp_upper = int (length data) - 1,
       mu_prior = (series_mean data, 5),
       sigma_prior = 5,
       obs_mu = (\<lambda>cp mu1 mu2. switch (map (\<lambda>i. cp \<ge> i) (arange (length data))) mu1 mu2),
       obs_sigma = (\<lambda>cp sigma1 sigma2.
          switch (map (\<lambda>i. cp \<ge> i) (arange (length data))) sigma1 sigma2),
       observed = data \<rparr>"

text \<open>
  The libraries, as parameters: \<^verbatim>\<open>rpt.Binseg(model="rbf").fit(prices).predict(n_bkps)\<close>,
  \<^verbatim>\<open>pm.sample(4000, tune=2000, chains=4, random_seed=42)\<close> read through
  \<^verbatim>\<open>trace.posterior['change_point'].values.flatten()\<close>, \<^verbatim>\<open>pd.to_datetime\<close>,
  \<^verbatim>\<open>stats.ttest_ind(before, after, nan_policy='omit')\<close> and \<^verbatim>\<open>Timestamp.year\<close>.
  Each either returns or raises. \<open>converged\<close> is what the sampler's diagnostics say of
  the run that \<^verbatim>\<open>pm.sample\<close> makes for a model (divergences, r-hat): pymc puts them in
  the trace and warns about them, it does not raise, and the analyzer never reads them.
\<close>

record libs =
  binseg_predict :: "real list \<Rightarrow> int \<Rightarrow> py_exn + int list"
  pm_sample :: "change_point_model \<Rightarrow> py_exn + int list"
  converged :: "change_point_model \<Rightarrow> bool"
  to_datetime :: "string \<Rightarrow> py_exn + date"
  ttest_ind :: "real list \<Rightarrow> real list \<Rightarrow> py_exn + fl \<times> fl"
  year :: "date \<Rightarrow> int"

record analyzer =
  price_data :: frame
  mean_price :: fl
  logger :: "(level \<times> log_record) list"
  displayed :: "artefact list"

definition init :: "frame \<Rightarrow> analyzer" where
  "init df = \<lparr> price_data = df, mean_price = series_mean (map snd df),
               logger = [], displayed = [] \<rparr>"

definition log_to :: "level \<Rightarrow> log_record \<Rightarrow> analyzer \<Rightarrow> analyzer" where
  "log_to lvl msg self = self\<lparr>logger := logger self @ [(lvl, msg)]\<rparr>"

definition display :: "artefact \<Rightarrow> analyzer \<Rightarrow> analyzer" where
  "display fig self = self\<lparr>displayed := displayed self @ [fig]\<rparr>"

text \<open>
  \<^verbatim>\<open>try: body except <classes> as e: handler\<close>. The body is run to its result and the
  analyzer as it stands then; an exception of a caught class goes to the handler, any
  other travels on.
\<close>

definition try_except ::
  "(py_exn + 'a) \<times> analyzer \<Rightarrow> (py_exn \<Rightarrow> bool) \<Rightarrow>
     (py_exn \<Rightarrow> analyzer \<Rightarrow> (py_exn + 'a) \<times> analyzer) \<Rightarrow> (py_exn + 'a) \<times> analyzer" where
  "try_except body caught handler =
     (case body of
        (Inl e, s) \<Rightarrow> if caught e then handler e s else (Inl e, s)
      | (Inr v, s) \<Rightarrow> (Inr v, s))"

text \<open>A call that may raise, followed by the rest of the block.\<close>

definition raise_or ::
  "py_exn + 'a \<Rightarrow> analyzer \<Rightarrow> ('a \<Rightarrow> (py_exn + 'b) \<times> analyzer) \<Rightarrow> (py_exn + 'b) \<times> analyzer" where
  "raise_or r s rest = (case r of Inl e \<Rightarrow> (Inl e, s) | Inr v \<Rightarrow> rest v)"

definition and_then :: "py_exn + 'a \<Rightarrow> ('a \<Rightarrow> py_exn + 'b) \<Rightarrow> py_exn + 'b" where
  "and_then r rest = (case r of Inl e \<Rightarrow> Inl e | Inr v \<Rightarrow> rest v)"

subsection \<open>CUSUM\<close>

definition calculate_cusum :: "analyzer \<Rightarrow> (py_exn + pyval) \<times> analyzer" where
  "calculate_cusum self =
     try_except
       (let cusum = cumsum (map (\<lambda>p. fsub (Fin p) (mean_price self)) (map snd (price_data self)))
        in (Inr PyNone,
            log_to INFO CusumPlotGenerated
              (display (CusumPlot (map fst (price_data self)) cusum) self)))
       is_Exception
       (\<lambda>e s. (Inr PyNone, log_to ERROR (ErrorCalculatingCusum e) s))"

subsection \<open>Binary segmentation\<close>

definition detect_change_point :: "libs \<Rightarrow> analyzer \<Rightarrow> int \<Rightarrow> (py_exn + pyval) \<times> analyzer" where
  "detect_change_point L self n_bkps =
     try_except
       (let df = price_data self;
            prices = map snd df
        in raise_or (binseg_predict L prices n_bkps) self (\<lambda>change_points.
           raise_or (comprehend (\<lambda>cp. and_then (iloc (map fst df) cp) (\<lambda>d. Inr (year L d)))
                      (butlast change_points)) self (\<lambda>change_years.
           raise_or (comprehend (\<lambda>cp. and_then (iloc df cp) (\<lambda>(d, p). Inr (d, p, year L d)))
                      (butlast change_points)) (display (PrintChangeYears change_years) self)
             (\<lambda>marks. (Inr PyNone,
                display (ChangePointPlot df marks)
                  (display (PrintChangeYears change_years) self))))))
       is_Exception
       (\<lambda>e s. (Inr PyNone, log_to ERROR (ErrorDetectingChangePoints e) s))"

subsection \<open>Bayesian change point\<close>

text \<open>
  \<^verbatim>\<open>np.median\<close> of the flattened draws: the middle element of the sorted draws, or the
  mean of the two middle ones; NaN when there is no draw. \<^verbatim>\<open>int(...)\<close> truncates toward
  zero and raises on NaN and on an infinity.
\<close>

definition np_median :: "int list \<Rightarrow> fl" where
  "np_median xs =
     (let ys = sort xs; n = length ys
      in if n = 0 then NaN
         else if odd n then Fin (of_int (ys ! (n div 2)))
         else Fin ((of_int (ys ! (n div 2 - 1)) + of_int (ys ! (n div 2))) / 2))"

fun py_int :: "fl \<Rightarrow> py_exn + int" where
  "py_int (Fin x) = Inr (if 0 \<le> x then \<lfloor>x\<rfloor> else \<lceil>x\<rceil>)"
| "py_int NaN = Inl ValueError"
| "py_int PInf = Inl OverflowError"
| "py_int NInf = Inl OverflowError"

definition bayesian_change_point_detection ::
  "libs \<Rightarrow> analyzer \<Rightarrow> (py_exn + pyval) \<times> analyzer" where
  "bayesian_change_point_detection L self =
     try_except
       (let data = map snd (price_data self)
        in raise_or (pm_sample L (build_model data)) self (\<lambda>draws.
           raise_or (py_int (np_median draws)) (display (TracePlot draws) self) (\<lambda>cp_est.
           raise_or (iloc (map fst (price_data self)) cp_est) (display (TracePlot draws) self)
             (\<lambda>cp_date. (Inr (PyDate cp_date),
                log_to INFO (BayesianDetectedAt cp_date)
                  (display (PrintChangePointDate cp_date)
                     (display (TracePlot draws) self)))))))
       is_Exception
       (\<lambda>e s. (Inr PyNone, log_to ERROR (BayesianFailed e) s))"


subsection \<open>Event windows\<close>

text \<open>
  \<^verbatim>\<open>_get_prices_around_event\<close>, \<^verbatim>\<open>_calculate_percentage_change\<close> and the other private
  methods keep their names without the leading underscore. The boolean mask keeps the
  rows between the two bounds, in row order.
\<close>

definition get_prices_around_event :: "analyzer \<Rightarrow> date \<Rightarrow> int \<Rightarrow> int \<Rightarrow> frame" where
  "get_prices_around_event self event_date days_before days_after =
     (let before = event_date - days_before;
          after = event_date + days_after
      in filter (\<lambda>(t, p). before \<le> t \<and> t \<le> after) (price_data self))"

text \<open>
  \<^verbatim>\<open>.loc[label, 'Price']\<close>: the price at an exact timestamp, \<^verbatim>\<open>KeyError\<close> when no row
  has it. The analyzer is written for an index of unique timestamps; where a label
  repeats, its first row is read.
\<close>

definition loc_price :: "frame \<Rightarrow> date \<Rightarrow> py_exn + real" where
  "loc_price df label = (case map_of df label of None \<Rightarrow> Inl KeyError | Some p \<Rightarrow> Inr p)"

definition calculate_percentage_change :: "analyzer \<Rightarrow> date \<Rightarrow> int \<Rightarrow> py_exn + fl option" where
  "calculate_percentage_change self event_date days =
     (case and_then (loc_price (price_data self) (event_date - days)) (\<lambda>before.
           and_then (loc_price (price_data self) (event_date + days)) (\<lambda>after.
           Inr (Some (fmul (fdiv (fsub (Fin after) (Fin before)) (Fin before)) (Fin 100))))) of
        Inl e \<Rightarrow> if e = KeyError then Inr None else Inl e
      | Inr v \<Rightarrow> Inr v)"

text \<open>
  The label slices \<^verbatim>\<open>.loc[:d, 'Price']\<close> and \<^verbatim>\<open>.loc[d:, 'Price']\<close>, both inclusive.
  On a monotonic index the bound is found by bisection and need not be a row; on any other
  index the label must be the timestamp of exactly one row, else \<^verbatim>\<open>KeyError\<close>.
\<close>

definition position_of :: "date \<Rightarrow> date list \<Rightarrow> nat" where
  "position_of d idx = length (takeWhile (\<lambda>t. t \<noteq> d) idx)"

definition loc_until :: "frame \<Rightarrow> date \<Rightarrow> py_exn + real list" where
  "loc_until df d =
     (let idx = map fst df
      in if sorted idx then Inr (map snd (filter (\<lambda>(t, p). t \<le> d) df))
         else if sorted (rev idx) then Inr (map snd (filter (\<lambda>(t, p). d \<le> t) df))
         else if count_list idx d = 1 then Inr (map snd (take (Suc (position_of d idx)) df))
         else Inl KeyError)"

definition loc_from :: "frame \<Rightarrow> date \<Rightarrow> py_exn + real list" where
  "loc_from df d =
     (let idx = map fst df
      in if sorted idx then Inr (map snd (filter (\<lambda>(t, p). d \<le> t) df))
         else if sorted (rev idx) then Inr (map snd (filter (\<lambda>(t, p). t \<le> d) df))
         else if count_list idx d = 1 then Inr (map snd (drop (position_of d idx) df))
         else Inl KeyError)"

subsection \<open>Event impact\<close>

definition plot_price_trends_around_events ::
  "libs \<Rightarrow> analyzer \<Rightarrow> (string \<times> string) list \<Rightarrow> int \<Rightarrow> int \<Rightarrow> (py_exn + unit) \<times> analyzer" where
  "plot_price_trends_around_events L self key_events days_before days_after =
     raise_or
       (comprehend (\<lambda>(event, date_str).
          and_then (to_datetime L date_str) (\<lambda>event_date.
            Inr (event, event_date,
                 get_prices_around_event self event_date days_before days_after)))
          key_events)
       self
       (\<lambda>curves. (Inr (), display (PriceTrendsPlot curves) self))"

text \<open>
  \<^verbatim>\<open>df.melt(id_vars=["Event", "Date"], ...)\<close> needs the columns to exist: a frame built
  from no row has none, and \<^verbatim>\<open>melt\<close> raises \<^verbatim>\<open>KeyError\<close>.
\<close>

definition plot_percentage_changes_and_cumulative_returns ::
  "analyzer \<Rightarrow> event_row list \<Rightarrow> (py_exn + unit) \<times> analyzer" where
  "plot_percentage_changes_and_cumulative_returns self df =
     (if df = [] then (Inl KeyError, self) else (Inr (), display (ChangeBarPlots df) self))"

text \<open>
  The \<^verbatim>\<open>for event, date_str in key_events.items()\<close> loop of
  \<^verbatim>\<open>_perform_statistical_analysis\<close>, with the dictionary \<^verbatim>\<open>results\<close> as accumulator:
  \<^verbatim>\<open>results[event] = ...\<close> is an update of the association list. Only \<^verbatim>\<open>KeyError\<close> is
  caught; any other exception leaves the loop and the method.
\<close>

fun statistical_loop ::
  "libs \<Rightarrow> analyzer \<Rightarrow> (string \<times> string) list \<Rightarrow> ttest_frame \<Rightarrow> (py_exn + ttest_frame) \<times> analyzer" where
  "statistical_loop L self [] results = (Inr results, self)"
| "statistical_loop L self ((event, date_str) # rest) results =
     (case try_except
             (raise_or (to_datetime L date_str) self (\<lambda>event_date.
              raise_or (loc_until (get_prices_around_event self event_date 180 30) event_date)
                self (\<lambda>before.
              raise_or (loc_from (get_prices_around_event self event_date 30 180) event_date)
                self (\<lambda>after.
              raise_or (ttest_ind L before after) self (\<lambda>t_p.
                (Inr (AList.update event t_p results), self))))))
             (\<lambda>e. e = KeyError)
             (\<lambda>e s. (Inr results, log_to WARNING (SkippingEvent event date_str) s)) of
        (Inl e, s) \<Rightarrow> (Inl e, s)
      | (Inr results', s) \<Rightarrow> statistical_loop L s rest results')"

definition perform_statistical_analysis ::
  "libs \<Rightarrow> analyzer \<Rightarrow> (string \<times> string) list \<Rightarrow> (py_exn + ttest_frame) \<times> analyzer" where
  "perform_statistical_analysis L self key_events =
     (case statistical_loop L self key_events [] of
        (Inl e, s) \<Rightarrow> (Inl e, s)
      | (Inr df, s) \<Rightarrow> (Inr df, display (PrintFrame df) s))"

text \<open>
  The loop of \<^verbatim>\<open>analyze_price_changes_around_events\<close>: \<open>analyze_event\<close> is the body of
  its \<^verbatim>\<open>try\<close> block for one event, ending in \<^verbatim>\<open>results.append\<close>; \<open>event_loop\<close> runs
  it for each event under \<^verbatim>\<open>except Exception\<close>, which logs a warning and goes on with
  the list of rows as it was.
\<close>

definition analyze_event ::
  "libs \<Rightarrow> analyzer \<Rightarrow> string \<Rightarrow> string \<Rightarrow> event_row list \<Rightarrow> (py_exn + event_row list) \<times> analyzer" where
  "analyze_event L self event date_str results =
     raise_or (to_datetime L date_str) self (\<lambda>event_date.
       (let prices = get_prices_around_event self event_date 180 180
        in raise_or (calculate_percentage_change self event_date 30) self (\<lambda>pct_1m.
           raise_or (calculate_percentage_change self event_date 90) self (\<lambda>pct_3m.
           raise_or (calculate_percentage_change self event_date 180) self (\<lambda>pct_6m.
           raise_or (and_then (loc_until prices event_date) cumulative_return) self (\<lambda>cum_before.
           raise_or (and_then (loc_from prices event_date) cumulative_return) self (\<lambda>cum_after.
             (Inr (results @
                [\<lparr> Event = event, Date = date_str,
                   Change_1M = pct_1m, Change_3M = pct_3m, Change_6M = pct_6m,
                   Cumulative_Return_Before = cum_before,
                   Cumulative_Return_After = cum_after \<rparr>]), self))))))))"

fun event_loop ::
  "libs \<Rightarrow> analyzer \<Rightarrow> (string \<times> string) list \<Rightarrow> event_row list \<Rightarrow> (py_exn + event_row list) \<times> analyzer" where
  "event_loop L self [] results = (Inr results, self)"
| "event_loop L self ((event, date_str) # rest) results =
     (case try_except (analyze_event L self event date_str results)
             is_Exception
             (\<lambda>e s. (Inr results, log_to WARNING (CouldNotProcessEvent event e) s)) of
        (Inl e, s) \<Rightarrow> (Inl e, s)
      | (Inr results', s) \<Rightarrow> event_loop L s rest results')"

definition analyze_price_changes_around_events ::
  "libs \<Rightarrow> analyzer \<Rightarrow> (string \<times> string) list \<Rightarrow> (py_exn + pyval) \<times> analyzer" where
  "analyze_price_changes_around_events L self key_events =
     (case event_loop L self key_events [] of
        (Inl e, s) \<Rightarrow> (Inl e, s)
      | (Inr event_df, s1) \<Rightarrow>
     (case plot_price_trends_around_events L s1 key_events 180 180 of
        (Inl e, s) \<Rightarrow> (Inl e, s)
      | (Inr u, s2) \<Rightarrow>
     (case plot_percentage_changes_and_cumulative_returns s2 event_df of
        (Inl e, s) \<Rightarrow> (Inl e, s)
      | (Inr u, s3) \<Rightarrow>
     (case perform_statistical_analysis L s3 key_events of
        (Inl e, s) \<Rightarrow> (Inl e, s)
      | (Inr t_test_df, s4) \<Rightarrow> (Inr (PyTables event_df t_test_df), s4)))))"

section \<open>Stand-ins for the libraries\<close>

text \<open>
  To run the analyzer on concrete inputs the libraries need concrete values. These
  stand-ins have the libraries' shape and nothing more: a segmentation on the grid of
  every fifth position, which rejects a breakpoint count that does not fit the series and
  otherwise returns the positions \<open>5, 10, ..., 5k\<close> and the series length; a sampler
  that refuses an empty series and otherwise returns four draws inside the support, from
  a run that does not converge on fewer than ten observations; a calendar of three date
  strings; a test statistic that is NaN when a sample has fewer than two observations;
  and years of 365 days.
\<close>

definition demo_libs :: libs where
  "demo_libs =
     \<lparr> binseg_predict = (\<lambda>prices n_bkps.
          if n_bkps < 1 \<or> int (length prices) < 5 * n_bkps + 2
          then Inl BadSegmentationParameters
          else Inr (map (\<lambda>i. 5 * int i) [1..<Suc (nat n_bkps)] @ [int (length prices)])),
       pm_sample = (\<lambda>model.
          if observed model = [] then Inl SamplingError
          else Inr [cp_upper model, 0, min 1 (cp_upper model), cp_upper model]),
       converged = (\<lambda>model. 10 \<le> length (observed model)),
       to_datetime = (\<lambda>date_str.
          case map_of [(''day 200'', 200), (''day 1000'', 1000), (''day 205'', 205)] date_str of
            None \<Rightarrow> Inl ValueError
          | Some d \<Rightarrow> Inr d),
       ttest_ind = (\<lambda>before after.
          if length before < 2 \<or> length after < 2 then Inr (NaN, NaN)
          else Inr (Fin (sum_list before / real (length before)
                         - sum_list after / real (length after)), Fin 1)),
       year = (\<lambda>d. 1970 + d div 365) \<rparr>"

text \<open>
  Three daily prices, ten daily prices on two levels, a series with rows 30, 90 and
  180 days around day 200, and a series of two rows 600 days apart.
\<close>

definition three_days :: frame where
  "three_days = [(0, 1), (1, 3), (2, 5)]"

definition two_levels :: frame where
  "two_levels = [(0, 50), (1, 50), (2, 50), (3, 50), (4, 50),
                 (5, 80), (6, 80), (7, 80), (8, 80), (9, 80)]"


definition around_200 :: frame where
  "around_200 = [(20, 10), (110, 20), (170, 25), (200, 40), (230, 50), (290, 30), (380, 15)]"

section \<open>CUSUM: what is computed and what is returned\<close>

lemma length_running: "length (running f acc xs) = length xs"
  by (induction xs arbitrary: acc) auto

lemma length_accumulate: "length (accumulate f xs) = length xs"
  by (cases xs) (simp_all add: accumulate_def length_running)

lemma length_cumsum: "length (cumsum xs) = length xs"
  by (simp add: cumsum_def na_accum_def length_accumulate)

lemma sum_upto_Cons: "(\<Sum>j\<le>Suc k. (x # xs) ! j) = (x::real) + (\<Sum>j\<le>k. xs ! j)"
  by (simp add: sum.atMost_Suc_shift del: sum.atMost_Suc)

lemma running_fadd_Fin:
  "i < length xs \<Longrightarrow> running fadd (Fin a) (map Fin xs) ! i = Fin (a + (\<Sum>j\<le>i. xs ! j))"
proof (induction xs arbitrary: a i)
  case Nil
  then show ?case by simp
next
  case (Cons x xs)
  show ?case
  proof (cases i)
    case 0
    then show ?thesis by simp
  next
    case (Suc k)
    with Cons.prems have k: "k < length xs" by simp
    from Cons.IH [OF k, of "a + x"] Suc show ?thesis
      by (simp add: sum_upto_Cons add.assoc del: sum.atMost_Suc)
  qed
qed

lemma accumulate_fadd_Fin:
  assumes "i < length xs"
  shows "accumulate fadd (map Fin xs) ! i = Fin (\<Sum>j\<le>i. xs ! j)"
proof (cases xs)
  case Nil
  with assms show ?thesis by simp
next
  case (Cons x rest)
  show ?thesis
  proof (cases i)
    case 0
    then show ?thesis using Cons by (simp add: accumulate_def)
  next
    case (Suc k)
    with assms Cons have k: "k < length rest" by simp
    from running_fadd_Fin [OF k, of x] Suc Cons show ?thesis
      by (simp add: accumulate_def sum_upto_Cons del: sum.atMost_Suc)
  qed
qed

lemma cumsum_Fin:
  assumes "i < length xs"
  shows "cumsum (map Fin xs) ! i = Fin (\<Sum>j\<le>i. xs ! j)"
proof -
  have m: "(\<lambda>x. if x = NaN then Fin 0 else x) \<circ> Fin = Fin"
    by (simp add: fun_eq_iff)
  show ?thesis using assms
    by (simp add: cumsum_def na_accum_def m length_accumulate accumulate_fadd_Fin)
qed

text \<open>
  Claim C4, as stated, fails: \<^verbatim>\<open>calculate_cusum\<close> has no \<^verbatim>\<open>return\<close>. On the series
  with prices 1 and 3 (mean 2) the deviations sum to \<open>-1, 0\<close>, and the caller gets
  \<^verbatim>\<open>None\<close>, not that sequence.
\<close>

theorem calculate_cusum_returns_none_counterexample:
  "fst (calculate_cusum (init [(0, 1), (1, 3)])) = Inr PyNone \<and>
   fst (calculate_cusum (init [(0, 1), (1, 3)])) \<noteq> Inr (PySeries [Fin (- 1), Fin 0])"
  by (simp add: calculate_cusum_def try_except_def)

text \<open>
  Claim C4, amended: for every analyzer whose stored mean is the mean of its prices (as
  \<^verbatim>\<open>__init__\<close> sets it), \<^verbatim>\<open>calculate_cusum\<close> computes a sequence of the same length
  as the series with \<open>cusum[i]\<close> the sum over \<open>j \<le> i\<close> of \<open>price[j] - mean\<close> (the empty
  sequence on an empty series), hands it to the plot, logs the plot, and returns
  \<^verbatim>\<open>None\<close> to its caller.
\<close>

theorem calculate_cusum_plots_partial_sums:
  assumes inv: "mean_price self = series_mean (map snd (price_data self))"
  shows "\<exists>cusum.
     calculate_cusum self =
       (Inr PyNone,
        log_to INFO CusumPlotGenerated
          (display (CusumPlot (map fst (price_data self)) cusum) self)) \<and>
     length cusum = length (price_data self) \<and>
     (\<forall>i < length (price_data self).
        cusum ! i =
          Fin (\<Sum>j\<le>i. snd (price_data self ! j)
                 - sum_list (map snd (price_data self)) / real (length (price_data self))))"
proof (cases "price_data self = []")
  case True
  then show ?thesis
    by (simp add: calculate_cusum_def try_except_def cumsum_def na_accum_def accumulate_def)
next
  case False
  define m where "m = sum_list (map snd (price_data self)) / real (length (price_data self))"
  have mp: "mean_price self = Fin m"
    using False inv by (simp add: series_mean_def m_def)
  have eq: "map (\<lambda>p. fsub (Fin p) (mean_price self)) (map snd (price_data self))
      = map Fin (map (\<lambda>r. snd r - m) (price_data self))"
    by (simp add: mp fsub_def)
  let ?cs = "cumsum (map Fin (map (\<lambda>r. snd r - m) (price_data self)))"
  have run: "calculate_cusum self =
       (Inr PyNone,
        log_to INFO CusumPlotGenerated
          (display (CusumPlot (map fst (price_data self)) ?cs) self))"
    unfolding calculate_cusum_def try_except_def Let_def eq by simp
  have len: "length ?cs = length (price_data self)"
    by (simp add: length_cumsum)
  have val: "?cs ! i = Fin (\<Sum>j\<le>i. snd (price_data self ! j) - m)"
    if "i < length (price_data self)" for i
  proof -
    have "?cs ! i = Fin (\<Sum>j\<le>i. map (\<lambda>r. snd r - m) (price_data self) ! j)"
      using that by (intro cumsum_Fin) simp
    also have "(\<Sum>j\<le>i. map (\<lambda>r. snd r - m) (price_data self) ! j)
        = (\<Sum>j\<le>i. snd (price_data self ! j) - m)"
      using that by (intro sum.cong) auto
    finally show ?thesis .
  qed
  from run len val show ?thesis unfolding m_def by blast
qed

theorem calculate_cusum_plots_partial_sums_witness:
  "mean_price (init [(0, 1), (1, 3)]) = series_mean (map snd (price_data (init [(0, 1), (1, 3)]))) \<and>
   (\<exists>cusum.
      calculate_cusum (init [(0, 1), (1, 3)]) =
        (Inr PyNone,
         log_to INFO CusumPlotGenerated
           (display (CusumPlot [0, 1] cusum) (init [(0, 1), (1, 3)]))) \<and>
      cusum = [Fin (- 1), Fin 0])"
proof -
  have inv: "mean_price (init [(0, 1), (1, 3)])
      = series_mean (map snd (price_data (init [(0, 1), (1, 3)])))"
    by (simp add: init_def)
  from calculate_cusum_plots_partial_sums [OF inv]
  obtain cusum where
    run: "calculate_cusum (init [(0, 1), (1, 3)]) =
        (Inr PyNone,
         log_to INFO CusumPlotGenerated
           (display (CusumPlot (map fst (price_data (init [(0, 1), (1, 3)]))) cusum)
              (init [(0, 1), (1, 3)])))"
    and len: "length cusum = length (price_data (init [(0, 1), (1, 3)]))"
    and val: "\<forall>i < length (price_data (init [(0, 1), (1, 3)])).
        cusum ! i =
          Fin (\<Sum>j\<le>i. snd (price_data (init [(0, 1), (1, 3)]) ! j)
                 - sum_list (map snd (price_data (init [(0, 1), (1, 3)])))
                   / real (length (price_data (init [(0, 1), (1, 3)]))))"
    by blast
  from len have l2: "length cusum = 2" by (simp add: init_def)
  from val have v0: "cusum ! 0 = Fin (- 1)" by (simp add: init_def)
  from val have v1: "cusum ! 1 = Fin 0"
    by (simp add: init_def)
  from l2 v0 v1 have "cusum = [Fin (- 1), Fin 0]"
    by (cases cusum; cases "tl cusum") (auto simp: nth_Cons')
  with run inv show ?thesis by (simp add: init_def)
qed

section \<open>Segmentation: what reaches the caller\<close>

lemma comprehend_map:
  "(\<And>x. x \<in> set xs \<Longrightarrow> f x = Inr (g x)) \<Longrightarrow> comprehend f xs = Inr (map g xs)"
  by (induction xs) auto

lemma butlast_below_last:
  assumes "sorted_wrt (<) (bs::int list)" and "b \<in> set (butlast bs)"
  shows "b < last bs"
proof -
  from assms(2) have "bs \<noteq> []" by auto
  then have split: "bs = butlast bs @ [last bs]" by simp
  from assms(1) have "sorted_wrt (<) (butlast bs @ [last bs])" using split by simp
  then show ?thesis using assms(2) by (simp add: sorted_wrt_append)
qed

lemma iloc_in_range: "0 \<le> i \<Longrightarrow> i < int (length rows) \<Longrightarrow> iloc rows i = Inr (rows ! nat i)"
  by (simp add: iloc_def)

text \<open>
  Claim C2, as stated, fails: \<^verbatim>\<open>detect_change_point\<close> has no \<^verbatim>\<open>return\<close> either. On
  ten prices and one breakpoint the segmentation yields the boundaries \<open>[5, 10]\<close>, and the
  caller gets \<^verbatim>\<open>None\<close>.
\<close>

theorem detect_change_point_returns_none_counterexample:
  "binseg_predict demo_libs (map snd two_levels) 1 = Inr [5, 10] \<and>
   fst (detect_change_point demo_libs (init two_levels) 1) = Inr PyNone \<and>
   fst (detect_change_point demo_libs (init two_levels) 1) \<noteq> Inr (PyBoundaries [5, 10])"
  by (simp add: detect_change_point_def try_except_def raise_or_def and_then_def iloc_def
      demo_libs_def two_levels_def init_def display_def Let_def)

text \<open>
  Claim C2, amended: for every series and every breakpoint count \<open>k \<ge> 1\<close>, when the
  segmentation library yields \<open>k + 1\<close> ordered positions into the series whose last entry
  is the series length, \<^verbatim>\<open>detect_change_point\<close> reads the \<open>k\<close> boundaries before the
  sentinel, prints their calendar years, marks them on the plot, and returns \<^verbatim>\<open>None\<close>:
  the boundaries themselves are not handed to the caller.
\<close>

theorem detect_change_point_reports_interior_years:
  assumes valid: "1 \<le> k"
    and lib: "binseg_predict L (map snd (price_data self)) k = Inr bs"
    and len: "int (length bs) = k + 1"
    and ordered: "sorted_wrt (<) bs"
    and sentinel: "last bs = int (length (price_data self))"
    and positions: "\<forall>b \<in> set bs. 0 \<le> b"
  shows "detect_change_point L self k =
           (Inr PyNone,
            display (ChangePointPlot (price_data self)
                       (map (\<lambda>b. (fst (price_data self ! nat b), snd (price_data self ! nat b),
                                   year L (fst (price_data self ! nat b)))) (butlast bs)))
              (display (PrintChangeYears
                          (map (\<lambda>b. year L (fst (price_data self ! nat b))) (butlast bs))) self)) \<and>
         int (length (butlast bs)) = k"
proof -
  let ?df = "price_data self"
  have inside: "0 \<le> b \<and> b < int (length ?df)" if "b \<in> set (butlast bs)" for b
    using that butlast_below_last [OF ordered that] sentinel positions
    by (auto dest: in_set_butlastD)
  have inside_nat: "nat b < length ?df" if "b \<in> set (butlast bs)" for b
    using inside [OF that] by (auto simp: nat_less_iff)
  have years:
    "comprehend (\<lambda>cp. and_then (iloc (map fst ?df) cp) (\<lambda>d. Inr (year L d))) (butlast bs)
      = Inr (map (\<lambda>b. year L (fst (?df ! nat b))) (butlast bs))"
    by (rule comprehend_map)
      (use inside inside_nat in \<open>simp add: iloc_in_range and_then_def\<close>)
  have marks:
    "comprehend (\<lambda>cp. and_then (iloc ?df cp) (\<lambda>(d, p). Inr (d, p, year L d))) (butlast bs)
      = Inr (map (\<lambda>b. (fst (?df ! nat b), snd (?df ! nat b), year L (fst (?df ! nat b))))
               (butlast bs))"
    by (rule comprehend_map)
      (use inside inside_nat in \<open>simp add: iloc_in_range and_then_def case_prod_beta\<close>)
  have run: "detect_change_point L self k =
           (Inr PyNone,
            display (ChangePointPlot ?df
                       (map (\<lambda>b. (fst (?df ! nat b), snd (?df ! nat b), year L (fst (?df ! nat b))))
                          (butlast bs)))
              (display (PrintChangeYears (map (\<lambda>b. year L (fst (?df ! nat b))) (butlast bs)))
                 self))"
    unfolding detect_change_point_def Let_def
    by (simp add: lib years marks try_except_def raise_or_def)
  from len valid have "int (length (butlast bs)) = k" by (cases bs) auto
  with run show ?thesis by simp
qed

theorem detect_change_point_reports_interior_years_witness:
  "binseg_predict demo_libs (map snd (price_data (init two_levels))) 1 = Inr [5, 10] \<and>
   detect_change_point demo_libs (init two_levels) 1 =
     (Inr PyNone,
      display (ChangePointPlot two_levels [(5, 80, 1970)])
        (display (PrintChangeYears [1970]) (init two_levels)))"
proof -
  have valid: "1 \<le> (1::int)" by simp
  have lib: "binseg_predict demo_libs (map snd (price_data (init two_levels))) 1 = Inr [5, 10]"
    by (simp add: demo_libs_def init_def two_levels_def)
  have len: "int (length [5, 10::int]) = 1 + 1" by simp
  have ordered: "sorted_wrt (<) [5, 10::int]" by simp
  have sentinel: "last [5, 10::int] = int (length (price_data (init two_levels)))"
    by (simp add: init_def two_levels_def)
  have positions: "\<forall>b \<in> set [5, 10::int]. 0 \<le> b" by simp
  from detect_change_point_reports_interior_years
         [OF valid lib len ordered sentinel positions] lib
  show ?thesis by (simp add: init_def two_levels_def demo_libs_def)
qed

text \<open>
  Claim C3, as stated, fails: the whole body of \<^verbatim>\<open>detect_change_point\<close> sits in
  \<^verbatim>\<open>try ... except Exception\<close>. With five breakpoints asked of three prices the
  segmentation raises, and the call returns \<^verbatim>\<open>None\<close> with one error record logged.
\<close>

theorem detect_change_point_swallows_counterexample:
  "int (length (price_data (init three_days))) \<le> 5 \<and>
   binseg_predict demo_libs (map snd (price_data (init three_days))) 5
     = Inl BadSegmentationParameters \<and>
   detect_change_point demo_libs (init three_days) 5 =
     (Inr PyNone,
      log_to ERROR (ErrorDetectingChangePoints BadSegmentationParameters) (init three_days))"
  by (simp add: detect_change_point_def try_except_def raise_or_def demo_libs_def
      three_days_def init_def)

text \<open>
  Claim C3, amended: for every series and every breakpoint count \<open>k \<ge> length(series)\<close>,
  an exception with which the segmentation rejects the configuration is caught inside
  \<^verbatim>\<open>detect_change_point\<close>: it is logged as an error, nothing is shown, and the call
  returns \<^verbatim>\<open>None\<close>; no configuration error is raised to the caller.
\<close>

theorem detect_change_point_logs_rejection:
  assumes invalid: "int (length (price_data self)) \<le> k"
    and rejected: "binseg_predict L (map snd (price_data self)) k = Inl e"
    and ordinary: "is_Exception e"
  shows "detect_change_point L self k =
           (Inr PyNone, log_to ERROR (ErrorDetectingChangePoints e) self)"
  using rejected ordinary
  by (simp add: detect_change_point_def try_except_def raise_or_def)

theorem detect_change_point_logs_rejection_witness:
  "int (length (price_data (init three_days))) \<le> 3 \<and>
   is_Exception BadSegmentationParameters \<and>
   detect_change_point demo_libs (init three_days) 3 =
     (Inr PyNone,
      log_to ERROR (ErrorDetectingChangePoints BadSegmentationParameters) (init three_days))"
proof -
  have invalid: "int (length (price_data (init three_days))) \<le> 3"
    by (simp add: init_def three_days_def)
  have rejected: "binseg_predict demo_libs (map snd (price_data (init three_days))) 3
      = Inl BadSegmentationParameters"
    by (simp add: demo_libs_def init_def three_days_def)
  have ordinary: "is_Exception BadSegmentationParameters" by simp
  from detect_change_point_logs_rejection [OF invalid rejected ordinary] invalid ordinary
  show ?thesis by simp
qed

section \<open>Bayesian change point: a failing sampler\<close>

text \<open>
  Claim C8, as stated, fails for a sampler that fails to converge: pymc reports that in
  its diagnostics and raises nothing, and \<^verbatim>\<open>bayesian_change_point_detection\<close> has no
  check of them. On three prices the run does not converge, its four draws are used all
  the same, and the caller gets the date at index 1, not \<^verbatim>\<open>None\<close>.
\<close>

theorem bayesian_unconverged_run_counterexample:
  "\<not> converged demo_libs (build_model (map snd (price_data (init three_days)))) \<and>
   pm_sample demo_libs (build_model (map snd (price_data (init three_days)))) = Inr [2, 0, 1, 2] \<and>
   fst (bayesian_change_point_detection demo_libs (init three_days)) = Inr (PyDate 1) \<and>
   fst (bayesian_change_point_detection demo_libs (init three_days)) \<noteq> Inr PyNone"
  by (simp add: bayesian_change_point_detection_def try_except_def raise_or_def
      np_median_def iloc_def demo_libs_def build_model_def init_def three_days_def)

text \<open>
  Claim C8, amended: for every series, when the sampler raises (a numerical error, a
  failed sampling run: any exception of class \<^verbatim>\<open>Exception\<close>),
  \<^verbatim>\<open>bayesian_change_point_detection\<close> catches it, logs it as an error, and returns
  \<^verbatim>\<open>None\<close>, its value for "no estimate": the sampler's exception does not reach the
  caller. A run that fails to converge without raising is not a failure to the method:
  what it returns and logs is the same whatever the diagnostics of the run say.
\<close>

theorem bayesian_raised_failure_is_no_estimate:
  "(pm_sample L (build_model (map snd (price_data self))) = Inl e \<and> is_Exception e \<longrightarrow>
      bayesian_change_point_detection L self =
        (Inr PyNone, log_to ERROR (BayesianFailed e) self)) \<and>
   bayesian_change_point_detection (L\<lparr>converged := diagnosis\<rparr>) self =
     bayesian_change_point_detection L self"
  by (simp add: bayesian_change_point_detection_def try_except_def raise_or_def)

theorem bayesian_raised_failure_is_no_estimate_witness:
  "pm_sample demo_libs (build_model (map snd (price_data (init [])))) = Inl SamplingError \<and>
   is_Exception SamplingError \<and>
   bayesian_change_point_detection demo_libs (init []) =
     (Inr PyNone, log_to ERROR (BayesianFailed SamplingError) (init [])) \<and>
   bayesian_change_point_detection (demo_libs\<lparr>converged := \<lambda>model. True\<rparr>) (init three_days) =
     bayesian_change_point_detection demo_libs (init three_days)"
proof -
  have failed: "pm_sample demo_libs (build_model (map snd (price_data (init []))))
      = Inl SamplingError"
    by (simp add: demo_libs_def build_model_def init_def)
  have ordinary: "is_Exception SamplingError" by simp
  from bayesian_raised_failure_is_no_estimate
         [of demo_libs "init []" SamplingError "\<lambda>model. True"] failed ordinary
  have caught: "bayesian_change_point_detection demo_libs (init []) =
      (Inr PyNone, log_to ERROR (BayesianFailed SamplingError) (init []))"
    by blast
  from bayesian_raised_failure_is_no_estimate
         [of demo_libs "init three_days" SamplingError "\<lambda>model. True"]
  have same: "bayesian_change_point_detection (demo_libs\<lparr>converged := \<lambda>model. True\<rparr>)
        (init three_days) = bayesian_change_point_detection demo_libs (init three_days)"
    by blast
  from failed ordinary caught same show ?thesis by blast
qed

section \<open>Percentage change at a horizon\<close>

lemma loc_price_present:
  "distinct (map fst df) \<Longrightarrow> (t, p) \<in> set df \<Longrightarrow> loc_price df t = Inr p"
  by (simp add: loc_price_def)

lemma loc_price_absent: "t \<notin> fst ` set df \<Longrightarrow> loc_price df t = Inl KeyError"
proof -
  assume "t \<notin> fst ` set df"
  then have "map_of df t = None" by (simp add: map_of_eq_None_iff)
  then show ?thesis by (simp add: loc_price_def)
qed

lemma loc_price_raises_only_KeyError: "loc_price df t = Inl e \<Longrightarrow> e = KeyError"
  by (auto simp: loc_price_def split: option.splits)

lemma calculate_percentage_change_returns:
  "\<exists>v. calculate_percentage_change self d h = Inr v"
  by (auto simp: calculate_percentage_change_def and_then_def
      split: sum.splits dest: loc_price_raises_only_KeyError)

text \<open>
  Claim C5: for every event date \<open>d\<close> and horizon \<open>h\<close> (in particular 30, 90 and 180
  days), on a series of unique timestamps, the percentage change is
  \<open>(price[d+h] - price[d-h]) / price[d-h] * 100\<close> when rows exist at exactly \<open>d - h\<close> and
  \<open>d + h\<close> (a finite number when \<open>price[d-h]\<close> is not zero, the float quotient otherwise);
  it is \<^verbatim>\<open>None\<close> when either date is absent; and in no case does the lookup raise.
\<close>

theorem calculate_percentage_change_at_exact_dates:
  assumes unique: "distinct (map fst (price_data self))"
  shows "((d - h, before) \<in> set (price_data self) \<and> (d + h, after) \<in> set (price_data self) \<longrightarrow>
            calculate_percentage_change self d h =
              Inr (Some (fmul (fdiv (fsub (Fin after) (Fin before)) (Fin before)) (Fin 100))) \<and>
            (before \<noteq> 0 \<longrightarrow>
               calculate_percentage_change self d h =
                 Inr (Some (Fin ((after - before) / before * 100))))) \<and>
         (d - h \<notin> fst ` set (price_data self) \<or> d + h \<notin> fst ` set (price_data self) \<longrightarrow>
            calculate_percentage_change self d h = Inr None) \<and>
         (\<exists>v. calculate_percentage_change self d h = Inr v)"
proof (intro conjI impI)
  assume rows: "(d - h, before) \<in> set (price_data self) \<and> (d + h, after) \<in> set (price_data self)"
  then have b: "loc_price (price_data self) (d - h) = Inr before"
    and a: "loc_price (price_data self) (d + h) = Inr after"
    using unique by (simp_all add: loc_price_present)
  show float: "calculate_percentage_change self d h =
      Inr (Some (fmul (fdiv (fsub (Fin after) (Fin before)) (Fin before)) (Fin 100)))"
    by (simp add: calculate_percentage_change_def and_then_def a b)
  show "calculate_percentage_change self d h = Inr (Some (Fin ((after - before) / before * 100)))"
    if "before \<noteq> 0"
    using that by (simp add: float fsub_def)
next
  assume "d - h \<notin> fst ` set (price_data self) \<or> d + h \<notin> fst ` set (price_data self)"
  then show "calculate_percentage_change self d h = Inr None"
    by (auto simp: calculate_percentage_change_def and_then_def loc_price_absent
        split: sum.splits dest: loc_price_raises_only_KeyError)
next
  show "\<exists>v. calculate_percentage_change self d h = Inr v"
    by (rule calculate_percentage_change_returns)
qed

theorem calculate_percentage_change_at_exact_dates_witness:
  "distinct (map fst (price_data (init around_200))) \<and>
   (200 - 30, 25) \<in> set (price_data (init around_200)) \<and>
   (200 + 30, 50) \<in> set (price_data (init around_200)) \<and>
   calculate_percentage_change (init around_200) 200 30 = Inr (Some (Fin 100)) \<and>
   200 - 31 \<notin> fst ` set (price_data (init around_200)) \<and>
   calculate_percentage_change (init around_200) 200 31 = Inr None"
proof -
  have unique: "distinct (map fst (price_data (init around_200)))"
    by (simp add: init_def around_200_def)
  have rows: "(200 - 30, 25) \<in> set (price_data (init around_200)) \<and>
      (200 + 30, 50) \<in> set (price_data (init around_200))"
    by (simp add: init_def around_200_def)
  have absent: "200 - 31 \<notin> fst ` set (price_data (init around_200))"
    by (simp add: init_def around_200_def)
  from calculate_percentage_change_at_exact_dates
         [OF unique, where d = 200 and h = 30 and before = 25 and after = 50] rows
  have present: "calculate_percentage_change (init around_200) 200 30 = Inr (Some (Fin 100))"
    by (simp add: fsub_def)
  from calculate_percentage_change_at_exact_dates
         [OF unique, where d = 200 and h = 31 and before = 0 and after = 0] absent
  have missing: "calculate_percentage_change (init around_200) 200 31 = Inr None"
    by blast
  from unique rows present absent missing show ?thesis by blast
qed

section \<open>The stored series is only read\<close>

lemma price_data_log_to [simp]: "price_data (log_to lvl msg s) = price_data s"
  by (simp add: log_to_def)

lemma price_data_display [simp]: "price_data (display fig s) = price_data s"
  by (simp add: display_def)

lemma calculate_cusum_frame: "price_data (snd (calculate_cusum self)) = price_data self"
  by (simp add: calculate_cusum_def try_except_def Let_def)

lemma detect_change_point_frame:
  "price_data (snd (detect_change_point L self k)) = price_data self"
  by (simp add: detect_change_point_def try_except_def raise_or_def Let_def split: sum.splits)

lemma bayesian_frame:
  "price_data (snd (bayesian_change_point_detection L self)) = price_data self"
  by (simp add: bayesian_change_point_detection_def try_except_def raise_or_def Let_def
      split: sum.splits)

lemma snd_analyze_event: "snd (analyze_event L self event date_str results) = self"
  by (simp add: analyze_event_def raise_or_def Let_def split: sum.splits)

lemma event_loop_frame: "price_data (snd (event_loop L s evs rs)) = price_data s"
proof (induction evs arbitrary: s rs)
  case Nil
  show ?case by simp
next
  case (Cons ev evs)
  obtain event date_str where ev: "ev = (event, date_str)" by (cases ev)
  obtain r where body: "analyze_event L s event date_str rs = (r, s)"
    using snd_analyze_event [of L s event date_str rs] by (cases "analyze_event L s event date_str rs") simp
  show ?case
    by (cases r) (simp_all add: ev body try_except_def Cons.IH)
qed


lemma snd_statistical_body:
  "snd (raise_or (to_datetime L date_str) s (\<lambda>event_date.
              raise_or (loc_until (get_prices_around_event s event_date 180 30) event_date)
                s (\<lambda>before.
              raise_or (loc_from (get_prices_around_event s event_date 30 180) event_date)
                s (\<lambda>after.
              raise_or (ttest_ind L before after) s (\<lambda>t_p.
                (Inr (AList.update event t_p results), s)))))) = s"
  by (simp add: raise_or_def split: sum.splits)

lemma statistical_loop_frame: "price_data (snd (statistical_loop L s evs rs)) = price_data s"
proof (induction evs arbitrary: s rs)
  case Nil
  show ?case by simp
next
  case (Cons ev evs)
  obtain event date_str where ev: "ev = (event, date_str)" by (cases ev)
  let ?body = "raise_or (to_datetime L date_str) s (\<lambda>event_date.
              raise_or (loc_until (get_prices_around_event s event_date 180 30) event_date)
                s (\<lambda>before.
              raise_or (loc_from (get_prices_around_event s event_date 30 180) event_date)
                s (\<lambda>after.
              raise_or (ttest_ind L before after) s (\<lambda>t_p.
                (Inr (AList.update event t_p rs), s)))))"
  obtain r where body: "?body = (r, s)"
    using snd_statistical_body [of L date_str s event rs] by (cases ?body) simp
  show ?case
    by (cases r) (simp_all add: ev body try_except_def Cons.IH)
qed

lemma perform_statistical_analysis_frame:
  "price_data (snd (perform_statistical_analysis L s evs)) = price_data s"
proof -
  obtain r s' where run: "statistical_loop L s evs [] = (r, s')"
    by (cases "statistical_loop L s evs []")
  with statistical_loop_frame [of L s evs "[]"] have "price_data s' = price_data s" by simp
  with run show ?thesis by (cases r) (simp_all add: perform_statistical_analysis_def)
qed

lemma plot_price_trends_frame:
  "price_data (snd (plot_price_trends_around_events L s evs b a)) = price_data s"
  by (simp add: plot_price_trends_around_events_def raise_or_def split: sum.splits)

lemma plot_percentage_changes_frame:
  "price_data (snd (plot_percentage_changes_and_cumulative_returns s df)) = price_data s"
  by (simp add: plot_percentage_changes_and_cumulative_returns_def)

lemma analyze_frame:
  "price_data (snd (analyze_price_changes_around_events L s evs)) = price_data s"
proof -
  obtain r1 s1 where l1: "event_loop L s evs [] = (r1, s1)" by (cases "event_loop L s evs []")
  with event_loop_frame [of L s evs "[]"] have p1: "price_data s1 = price_data s" by simp
  show ?thesis
  proof (cases r1)
    case (Inl e)
    with l1 p1 show ?thesis by (simp add: analyze_price_changes_around_events_def)
  next
    case (Inr event_df)
    obtain r2 s2 where l2: "plot_price_trends_around_events L s1 evs 180 180 = (r2, s2)"
      by (cases "plot_price_trends_around_events L s1 evs 180 180")
    with plot_price_trends_frame [of L s1 evs 180 180] p1 have p2: "price_data s2 = price_data s"
      by simp
    show ?thesis
    proof (cases r2)
      case (Inl e)
      with l1 l2 p2 \<open>r1 = Inr event_df\<close> show ?thesis
        by (simp add: analyze_price_changes_around_events_def)
    next
      case r2: (Inr u)
      obtain r3 s3 where l3: "plot_percentage_changes_and_cumulative_returns s2 event_df = (r3, s3)"
        by (cases "plot_percentage_changes_and_cumulative_returns s2 event_df")
      with plot_percentage_changes_frame [of s2 event_df] p2 have p3: "price_data s3 = price_data s"
        by simp
      show ?thesis
      proof (cases r3)
        case (Inl e)
        with l1 l2 l3 p3 r2 \<open>r1 = Inr event_df\<close> show ?thesis
          by (simp add: analyze_price_changes_around_events_def)
      next
        case r3: (Inr u')
        obtain r4 s4 where l4: "perform_statistical_analysis L s3 evs = (r4, s4)"
          by (cases "perform_statistical_analysis L s3 evs")
        with perform_statistical_analysis_frame [of L s3 evs] p3
        have p4: "price_data s4 = price_data s" by simp
        with l1 l2 l3 l4 r2 r3 \<open>r1 = Inr event_df\<close> show ?thesis
          by (cases r4) (simp_all add: analyze_price_changes_around_events_def)
      qed
    qed
  qed
qed


lemma analyze_event_reads_prices:
  "price_data s = price_data s' \<Longrightarrow>
     fst (analyze_event L s event date_str rs) = fst (analyze_event L s' event date_str rs)"
  by (simp add: analyze_event_def raise_or_def Let_def get_prices_around_event_def
      calculate_percentage_change_def split: sum.splits)

lemma event_loop_reads_prices:
  "price_data s = price_data s' \<Longrightarrow>
     fst (event_loop L s evs rs) = fst (event_loop L s' evs rs)"
proof (induction evs arbitrary: s s' rs)
  case Nil
  show ?case by simp
next
  case (Cons ev evs)
  obtain event date_str where ev: "ev = (event, date_str)" by (cases ev)
  obtain r where body: "analyze_event L s event date_str rs = (r, s)"
    using snd_analyze_event [of L s event date_str rs]
    by (cases "analyze_event L s event date_str rs") simp
  obtain r' where body': "analyze_event L s' event date_str rs = (r', s')"
    using snd_analyze_event [of L s' event date_str rs]
    by (cases "analyze_event L s' event date_str rs") simp
  from analyze_event_reads_prices [OF Cons.prems, of L event date_str rs] body body'
  have same: "r' = r" by simp
  show ?case
  proof (cases r)
    case (Inl e)
    have logged: "price_data (log_to WARNING (CouldNotProcessEvent event e) s)
        = price_data (log_to WARNING (CouldNotProcessEvent event e) s')"
      using Cons.prems by simp
    from Inl show ?thesis
      by (simp add: ev body body' same try_except_def Cons.IH [OF logged])
  next
    case (Inr rs')
    then show ?thesis
      by (simp add: ev body body' same try_except_def Cons.IH [OF Cons.prems])
  qed
qed

lemma statistical_loop_reads_prices:
  "price_data s = price_data s' \<Longrightarrow>
     fst (statistical_loop L s evs rs) = fst (statistical_loop L s' evs rs)"
proof (induction evs arbitrary: s s' rs)
  case Nil
  show ?case by simp
next
  case (Cons ev evs)
  obtain event date_str where ev: "ev = (event, date_str)" by (cases ev)
  let ?body = "\<lambda>s. raise_or (to_datetime L date_str) s (\<lambda>event_date.
              raise_or (loc_until (get_prices_around_event s event_date 180 30) event_date)
                s (\<lambda>before.
              raise_or (loc_from (get_prices_around_event s event_date 30 180) event_date)
                s (\<lambda>after.
              raise_or (ttest_ind L before after) s (\<lambda>t_p.
                (Inr (AList.update event t_p rs), s)))))"
  obtain r where body: "?body s = (r, s)"
    using snd_statistical_body [of L date_str s event rs] by (cases "?body s") simp
  obtain r' where body': "?body s' = (r', s')"
    using snd_statistical_body [of L date_str s' event rs] by (cases "?body s'") simp
  have "fst (?body s) = fst (?body s')"
    using Cons.prems
    by (simp add: raise_or_def get_prices_around_event_def split: sum.splits)
  with body body' have same: "r' = r" by simp
  show ?case
  proof (cases r)
    case (Inl e)
    have logged: "price_data (log_to WARNING (SkippingEvent event date_str) s)
        = price_data (log_to WARNING (SkippingEvent event date_str) s')"
      using Cons.prems by simp
    from Inl show ?thesis
      by (simp add: ev body body' same try_except_def Cons.IH [OF logged])
  next
    case (Inr rs')
    then show ?thesis
      by (simp add: ev body body' same try_except_def Cons.IH [OF Cons.prems])
  qed
qed

lemma perform_statistical_analysis_reads_prices:
  assumes "price_data s = price_data s'"
  shows "fst (perform_statistical_analysis L s evs) = fst (perform_statistical_analysis L s' evs)"
proof -
  obtain r t where run: "statistical_loop L s evs [] = (r, t)"
    by (cases "statistical_loop L s evs []")
  obtain r' t' where run': "statistical_loop L s' evs [] = (r', t')"
    by (cases "statistical_loop L s' evs []")
  from statistical_loop_reads_prices [OF assms, of L evs "[]"] run run' have "r' = r" by simp
  with run run' show ?thesis
    by (cases r) (simp_all add: perform_statistical_analysis_def)
qed

lemma plot_price_trends_reads_prices:
  "fst (plot_price_trends_around_events L s evs b a)
     = fst (plot_price_trends_around_events L s' evs b a)"
proof -
  have "(\<exists>e. comprehend (\<lambda>(event, date_str).
          and_then (to_datetime L date_str) (\<lambda>event_date.
            Inr (event, event_date, get_prices_around_event s event_date b a))) evs = Inl e \<and>
        comprehend (\<lambda>(event, date_str).
          and_then (to_datetime L date_str) (\<lambda>event_date.
            Inr (event, event_date, get_prices_around_event s' event_date b a))) evs = Inl e) \<or>
       (\<exists>c c'. comprehend (\<lambda>(event, date_str).
          and_then (to_datetime L date_str) (\<lambda>event_date.
            Inr (event, event_date, get_prices_around_event s event_date b a))) evs = Inr c \<and>
        comprehend (\<lambda>(event, date_str).
          and_then (to_datetime L date_str) (\<lambda>event_date.
            Inr (event, event_date, get_prices_around_event s' event_date b a))) evs = Inr c')"
    by (induction evs) (auto simp: and_then_def split: sum.splits)
  then show ?thesis
    by (auto simp: plot_price_trends_around_events_def raise_or_def)
qed

lemma plot_percentage_changes_reads_frame:
  "fst (plot_percentage_changes_and_cumulative_returns s df)
     = fst (plot_percentage_changes_and_cumulative_returns s' df)"
  by (simp add: plot_percentage_changes_and_cumulative_returns_def)


lemma analyze_result:
  "fst (analyze_price_changes_around_events L s evs) =
     (case fst (event_loop L s evs []) of
        Inl e \<Rightarrow> Inl e
      | Inr event_df \<Rightarrow>
     (case fst (plot_price_trends_around_events L s evs 180 180) of
        Inl e \<Rightarrow> Inl e
      | Inr u \<Rightarrow>
     (case fst (plot_percentage_changes_and_cumulative_returns s event_df) of
        Inl e \<Rightarrow> Inl e
      | Inr u \<Rightarrow>
     (case fst (perform_statistical_analysis L s evs) of
        Inl e \<Rightarrow> Inl e
      | Inr t_test_df \<Rightarrow> Inr (PyTables event_df t_test_df)))))"
proof -
  obtain r1 s1 where l1: "event_loop L s evs [] = (r1, s1)" by (cases "event_loop L s evs []")
  with event_loop_frame [of L s evs "[]"] have p1: "price_data s1 = price_data s" by simp
  obtain r2 s2 where l2: "plot_price_trends_around_events L s1 evs 180 180 = (r2, s2)"
    by (cases "plot_price_trends_around_events L s1 evs 180 180")
  with plot_price_trends_frame [of L s1 evs 180 180] p1 have p2: "price_data s2 = price_data s"
    by simp
  from l2 plot_price_trends_reads_prices [of L s1 evs 180 180 s]
  have f2: "fst (plot_price_trends_around_events L s evs 180 180) = r2" by simp
  show ?thesis
  proof (cases r1)
    case (Inl e)
    with l1 show ?thesis by (simp add: analyze_price_changes_around_events_def)
  next
    case r1: (Inr event_df)
    obtain r3 s3 where l3: "plot_percentage_changes_and_cumulative_returns s2 event_df = (r3, s3)"
      by (cases "plot_percentage_changes_and_cumulative_returns s2 event_df")
    with plot_percentage_changes_frame [of s2 event_df] p2 have p3: "price_data s3 = price_data s"
      by simp
    from l3 plot_percentage_changes_reads_frame [of s2 event_df s]
    have f3: "fst (plot_percentage_changes_and_cumulative_returns s event_df) = r3" by simp
    obtain r4 s4 where l4: "perform_statistical_analysis L s3 evs = (r4, s4)"
      by (cases "perform_statistical_analysis L s3 evs")
    from l4 perform_statistical_analysis_reads_prices [OF p3, of L evs]
    have f4: "fst (perform_statistical_analysis L s evs) = r4" by simp
    show ?thesis
      unfolding analyze_price_changes_around_events_def
      by (simp add: l1 r1 l2 f2 l3 f3 l4 f4 split: sum.splits)
  qed
qed

lemma analyze_reads_prices:
  assumes "price_data s = price_data s'"
  shows "fst (analyze_price_changes_around_events L s evs)
       = fst (analyze_price_changes_around_events L s' evs)"
proof -
  have e1: "fst (event_loop L s evs []) = fst (event_loop L s' evs [])"
    by (rule event_loop_reads_prices [OF assms])
  have e2: "fst (plot_price_trends_around_events L s evs 180 180)
      = fst (plot_price_trends_around_events L s' evs 180 180)"
    by (rule plot_price_trends_reads_prices)
  have e3: "fst (plot_percentage_changes_and_cumulative_returns s df)
      = fst (plot_percentage_changes_and_cumulative_returns s' df)" for df
    by (rule plot_percentage_changes_reads_frame)
  have e4: "fst (perform_statistical_analysis L s evs)
      = fst (perform_statistical_analysis L s' evs)"
    by (rule perform_statistical_analysis_reads_prices [OF assms])
  show ?thesis
    unfolding analyze_result [of L s] e1 e2 e3 e4 analyze_result [of L s'] ..
qed

text \<open>
  Claim C10: none of the analyzer's operations changes the stored price series. After
  \<^verbatim>\<open>calculate_cusum\<close>, \<^verbatim>\<open>detect_change_point\<close>,
  \<^verbatim>\<open>bayesian_change_point_detection\<close> and \<^verbatim>\<open>analyze_price_changes_around_events\<close>,
  whatever they return or raise, \<^verbatim>\<open>price_data\<close> holds the same rows as before; and the
  body run for one event, which extracts the event window and looks up the exact dates,
  leaves the whole analyzer as it was.
\<close>

theorem operations_keep_price_data:
  "price_data (snd (calculate_cusum self)) = price_data self \<and>
   price_data (snd (detect_change_point L self n_bkps)) = price_data self \<and>
   price_data (snd (bayesian_change_point_detection L self)) = price_data self \<and>
   price_data (snd (analyze_price_changes_around_events L self key_events)) = price_data self \<and>
   snd (analyze_event L self event date_str results) = self"
  using calculate_cusum_frame [of self] detect_change_point_frame [of L self n_bkps]
    bayesian_frame [of L self] analyze_frame [of L self key_events]
    snd_analyze_event [of L self event date_str results]
  by blast

theorem operations_keep_price_data_witness:
  "price_data (snd (calculate_cusum (init three_days))) = three_days \<and>
   price_data (snd (detect_change_point demo_libs (init three_days) 2)) = three_days \<and>
   price_data (snd (bayesian_change_point_detection demo_libs (init three_days))) = three_days \<and>
   price_data (snd (analyze_price_changes_around_events demo_libs (init three_days)
      [(''A'', ''day 200'')])) = three_days"
  using operations_keep_price_data
    [of "init three_days" demo_libs 2 "[(''A'', ''day 200'')]" "''A''" "''day 200''" "[]"]
  by (simp add: init_def)

section \<open>The event analysis is a function of the series and the events\<close>

text \<open>
  Claim C9: for every series and event mapping, a second call of
  \<^verbatim>\<open>analyze_price_changes_around_events\<close> with the same events, on the analyzer as the
  first call left it (its log and its figures grown, its series the same), returns the
  same outcome as the first: the same two tables, or the same exception.
\<close>

theorem analyze_twice_same_tables:
  "fst (analyze_price_changes_around_events L
          (snd (analyze_price_changes_around_events L self key_events)) key_events)
     = fst (analyze_price_changes_around_events L self key_events)"
  by (rule analyze_reads_prices) (rule analyze_frame)

theorem analyze_twice_same_tables_witness:
  "fst (analyze_price_changes_around_events demo_libs
          (snd (analyze_price_changes_around_events demo_libs (init around_200)
             [(''A'', ''day 200''), (''B'', ''day 1000'')]))
          [(''A'', ''day 200''), (''B'', ''day 1000'')])
     = fst (analyze_price_changes_around_events demo_libs (init around_200)
          [(''A'', ''day 200''), (''B'', ''day 1000'')])"
  by (rule analyze_twice_same_tables)

section \<open>Bayesian change point: the point estimate\<close>












section \<open>Events without enough data\<close>

lemma get_prices_log_to [simp]:
  "get_prices_around_event (log_to lvl msg s) d b a = get_prices_around_event s d b a"
  by (simp add: get_prices_around_event_def)

lemma calculate_percentage_change_log_to [simp]:
  "calculate_percentage_change (log_to lvl msg s) d h = calculate_percentage_change s d h"
  by (simp add: calculate_percentage_change_def)

lemma sorted_window:
  "sorted (map fst (price_data self)) \<Longrightarrow>
     sorted (map fst (get_prices_around_event self d b a))"
  by (simp add: get_prices_around_event_def sorted_filter)

lemma loc_until_sorted:
  "sorted (map fst df) \<Longrightarrow> loc_until df d = Inr (map snd (filter (\<lambda>(t, p). t \<le> d) df))"
  by (simp add: loc_until_def)

lemma loc_from_sorted:
  "sorted (map fst df) \<Longrightarrow> loc_from df d = Inr (map snd (filter (\<lambda>(t, p). d \<le> t) df))"
  by (simp add: loc_from_def)





text \<open>The slices of the window of an event, on a sorted index.\<close>

lemma before_slice:
  assumes "sorted (map fst (price_data self))" and "0 \<le> a"
  shows "loc_until (get_prices_around_event self d b a) d
       = Inr (map snd (filter (\<lambda>(t, p). d - b \<le> t \<and> t \<le> d) (price_data self)))"
proof -
  have "filter (\<lambda>(t, p). t \<le> d) (get_prices_around_event self d b a)
      = filter (\<lambda>(t, p). d - b \<le> t \<and> t \<le> d) (price_data self)"
    using assms(2) by (auto simp: get_prices_around_event_def intro: filter_cong)
  with loc_until_sorted [OF sorted_window [OF assms(1)]] show ?thesis by simp
qed

lemma after_slice:
  assumes "sorted (map fst (price_data self))" and "0 \<le> b"
  shows "loc_from (get_prices_around_event self d b a) d
       = Inr (map snd (filter (\<lambda>(t, p). d \<le> t \<and> t \<le> d + a) (price_data self)))"
proof -
  have "filter (\<lambda>(t, p). d \<le> t) (get_prices_around_event self d b a)
      = filter (\<lambda>(t, p). d \<le> t \<and> t \<le> d + a) (price_data self)"
    using assms(2) by (auto simp: get_prices_around_event_def intro: filter_cong)
  with loc_from_sorted [OF sorted_window [OF assms(1)]] show ?thesis by simp
qed






lemma statistical_step:
  assumes ordered: "sorted (map fst (price_data self))"
    and parsed: "to_datetime L date_str = Inr d"
    and tested: "ttest_ind L
        (map snd (filter (\<lambda>(t, p). d - 180 \<le> t \<and> t \<le> d) (price_data self)))
        (map snd (filter (\<lambda>(t, p). d \<le> t \<and> t \<le> d + 180) (price_data self))) = Inr r"
  shows "statistical_loop L self ((event, date_str) # rest) rs
       = statistical_loop L self rest (AList.update event r rs)"
  by (simp add: parsed tested raise_or_def try_except_def
      before_slice [OF ordered] after_slice [OF ordered])















text \<open>
  Claim C7 says that an event whose windows hold too little data for the test is skipped
  from the table of statistics, with a log record. The code means to
  (\<^verbatim>\<open>except KeyError\<close>, "Skipping event ..., insufficient data."), but on a sorted index
  the label slices never raise \<^verbatim>\<open>KeyError\<close>. What it does instead: for an event with no
  row within 180 days on either side, the two empty windows are handed to the t-test, and
  whatever the test returns on them becomes the event's entry; nothing is logged.
\<close>

theorem empty_windows_are_tested:
  assumes ordered: "sorted (map fst (price_data self))"
    and parsed: "to_datetime L date_str = Inr d"
    and empty: "\<forall>(t, p) \<in> set (price_data self). t < d - 180 \<or> d + 180 < t"
    and tested: "ttest_ind L [] [] = Inr r"
  shows "perform_statistical_analysis L self [(event, date_str)] =
           (Inr [(event, r)], display (PrintFrame [(event, r)]) self)"
proof -
  from empty have "filter (\<lambda>(t, p). d - 180 \<le> t \<and> t \<le> d) (price_data self) = []"
    and "filter (\<lambda>(t, p). d \<le> t \<and> t \<le> d + 180) (price_data self) = []"
    by (auto simp: filter_empty_conv)
  with tested have "ttest_ind L
        (map snd (filter (\<lambda>(t, p). d - 180 \<le> t \<and> t \<le> d) (price_data self)))
        (map snd (filter (\<lambda>(t, p). d \<le> t \<and> t \<le> d + 180) (price_data self))) = Inr r"
    by simp
  from statistical_step [OF ordered parsed this] show ?thesis
    by (simp add: perform_statistical_analysis_def del: statistical_loop.simps(2))
qed

theorem empty_windows_are_tested_witness:
  "sorted (map fst (price_data (init around_200))) \<and>
   to_datetime demo_libs ''day 1000'' = Inr 1000 \<and>
   ttest_ind demo_libs [] [] = Inr (NaN, NaN) \<and>
   perform_statistical_analysis demo_libs (init around_200) [(''B'', ''day 1000'')] =
     (Inr [(''B'', NaN, NaN)], display (PrintFrame [(''B'', NaN, NaN)]) (init around_200)) \<and>
   logger (snd (perform_statistical_analysis demo_libs (init around_200)
                  [(''B'', ''day 1000'')])) = []"
proof -
  have ordered: "sorted (map fst (price_data (init around_200)))"
    by (simp add: init_def around_200_def)
  have parsed: "to_datetime demo_libs ''day 1000'' = Inr 1000"
    by (simp add: demo_libs_def)
  have empty: "\<forall>(t, p) \<in> set (price_data (init around_200)). t < 1000 - 180 \<or> 1000 + 180 < t"
    by (simp add: init_def around_200_def)
  have tested: "ttest_ind demo_libs [] [] = Inr (NaN, NaN)"
    by (simp add: demo_libs_def)
  from empty_windows_are_tested [OF ordered parsed empty tested, of "''B''"]
  have run: "perform_statistical_analysis demo_libs (init around_200) [(''B'', ''day 1000'')] =
     (Inr [(''B'', NaN, NaN)], display (PrintFrame [(''B'', NaN, NaN)]) (init around_200))" .
  then have "logger (snd (perform_statistical_analysis demo_libs (init around_200)
                  [(''B'', ''day 1000'')])) = []"
    by (simp add: display_def init_def)
  with ordered parsed tested run show ?thesis by blast
qed

end
